theory Spec2Isabelle
  imports Main "HOL-Library.Word"
begin

unbundle bit_operations_syntax

section \<open>Data model of RPCConnection.h\<close>

text \<open>
  The embedding follows \<^verbatim>\<open>source/crazygaze/rpc/RPCConnection.h\<close>: the move-only
  \<^verbatim>\<open>Call\<close> builder and the \<^verbatim>\<open>Connection\<close> with its outgoing work queue,
  \<^verbatim>\<open>processOut\<close>, \<^verbatim>\<open>processIn\<close>, \<^verbatim>\<open>commit\<close> and \<^verbatim>\<open>send\<close>.
  The types \<^verbatim>\<open>Header\<close>, \<^verbatim>\<open>Stream\<close>, \<^verbatim>\<open>Transport\<close>, \<^verbatim>\<open>OutProcessor\<close>,
  \<^verbatim>\<open>InProcessor\<close>, \<^verbatim>\<open>Monitor\<close> and \<^verbatim>\<open>Callstack\<close> are used by that file but
  declared elsewhere; what is needed of them is modelled from the design document and
  marked as such.
\<close>

type_synonym byte = "8 word"

text \<open>
  Modelled from the spec: the \<^verbatim>\<open>Header\<close> struct (its declaration is missing). The
  fields are the ones the source touches through \<^verbatim>\<open>hdr.bits\<close>: \<^verbatim>\<open>rpcid\<close>,
  \<^verbatim>\<open>isReply\<close>, \<^verbatim>\<open>size\<close>, \<^verbatim>\<open>counter\<close>. The header is a record of fixed size
  with fields of fixed width. \<^verbatim>\<open>size\<close> and \<^verbatim>\<open>counter\<close> hold naturals below two to
  the power of their width: the one place that writes them, \<^verbatim>\<open>Connection::send\<close>,
  reduces the value modulo that power, as an assignment to an unsigned bit-field does.
  \<^verbatim>\<open>rpcid\<close> has the width of the constructor's \<^verbatim>\<open>uint32_t\<close> argument.
\<close>

record Header =
  bits_rpcid :: "32 word"
  bits_isReply :: bool
  bits_size :: nat
  bits_counter :: nat

text \<open>
  Modelled from the spec: the default constructor \<^verbatim>\<open>Header hdr;\<close> gives the
  placeholder header (a call frame, size and counter not yet known).
\<close>

definition Header_ctor :: Header where
  "Header_ctor = \<lparr>bits_rpcid = 0, bits_isReply = False, bits_size = 0, bits_counter = 0\<rparr>"

text \<open>
  Modelled from the spec: \<^verbatim>\<open>Header::key()\<close>, the correlation key, is the pair of
  call id and counter.
\<close>

type_synonym key_t = "32 word \<times> nat"

definition key :: "Header \<Rightarrow> key_t" where
  "key h = (bits_rpcid h, bits_counter h)"

text \<open>
  Modelled from the spec: \<^verbatim>\<open>Stream\<close>, the frame buffer. The source writes a
  \<^verbatim>\<open>Header\<close> object at offset 0 (\<^verbatim>\<open>m_data << hdr\<close>), appends the encoded
  arguments behind it and later assigns fields of the object at \<^verbatim>\<open>ptr(0)\<close>. The
  buffer is therefore kept as the header object at offset 0, if one was written, followed
  by the body bytes; the byte layout of the header is not modelled. The stream that a
  move leaves behind, and a default-constructed one, is empty.
\<close>

record Stream =
  header :: "Header option"
  body :: "byte list"

definition Stream_empty :: Stream where
  "Stream_empty = \<lparr>header = None, body = []\<rparr>"

text \<open>
  \<^verbatim>\<open>Stream::writeSize()\<close>: the number of bytes written, header included (the source
  stores it in \<^verbatim>\<open>bits.size\<close>, the total length of the frame). The parameter
  \<open>hw\<close> is \<^verbatim>\<open>sizeof(Header)\<close>, a constant that is declared outside this file.
\<close>

definition writeSize :: "nat \<Rightarrow> Stream \<Rightarrow> nat" where
  "writeSize hw s = (case header s of None \<Rightarrow> 0 | Some _ \<Rightarrow> hw) + length (body s)"

text \<open>\<^verbatim>\<open>m_data << hdr\<close> on the fresh stream of a builder.\<close>

definition write_header :: "Stream \<Rightarrow> Header \<Rightarrow> Stream" where
  "write_header s h = s\<lparr>header := Some h\<rparr>"

text \<open>
  The widths, in bits, that are fixed by declarations outside this file: of the bit-fields
  \<^verbatim>\<open>bits.size\<close> and \<^verbatim>\<open>bits.counter\<close> of the header, and of the unsigned
  integer type of \<^verbatim>\<open>OutProcessor::replyIdCounter\<close>. They are parameters of
  \<^verbatim>\<open>send\<close> and of what calls it.
\<close>

record Widths =
  size_bits :: nat
  counter_bits :: nat
  replyId_bits :: nat

text \<open>
  Handlers are closures in the source. A handler is identified by where it comes from:
  the empty lambda of the destructor, the promise-setting lambda of \<^verbatim>\<open>ft\<close>, or a
  handler of the caller passed to \<^verbatim>\<open>async\<close>. Handlers are opaque: invoking one is
  recorded, and it does not touch the connection.
\<close>

datatype handler = NoOp | SetPromise nat | UserHandler nat

text \<open>The argument a handler receives: the aborted result, or the reply frame to decode.\<close>

datatype result = Aborted | Replied Header "byte list"

type_synonym callback = nat

text \<open>
  The calls a connection makes on its collaborators and callbacks, in program order:
  the out and disconnect signals, \<^verbatim>\<open>Transport::send\<close>, the registration of a reply
  handler, the invocation of a reply handler, and \<^verbatim>\<open>InProcessor::processCall\<close>.
\<close>

datatype event =
    OutSignal callback
  | DisconnectSignal callback
  | TransportSend Stream
  | ReplyHandlerAdded key_t handler
  | HandlerInvoked handler result
  | LocalCall Header "byte list"

text \<open>
  Modelled from the spec: the \<^verbatim>\<open>Transport\<close>. Its \<^verbatim>\<open>receive\<close> either reports the
  connection closed, or open with nothing pending, or hands over one frame. The state of
  a transport is the list of the outcomes its next polls will have; a closed transport
  stays closed, and a transport with nothing more scheduled is open with no data.
\<close>

datatype poll = PClosed | PEmpty | PFrame Header "byte list"

record Transport =
  rx :: "poll list"

definition receive :: "Transport \<Rightarrow> (bool \<times> (Header \<times> byte list) option) \<times> Transport" where
  "receive t =
     (case rx t of
        [] \<Rightarrow> ((True, None), t)
      | PClosed # _ \<Rightarrow> ((False, None), t)
      | PEmpty # ps \<Rightarrow> ((True, None), t\<lparr>rx := ps\<rparr>)
      | PFrame h b # ps \<Rightarrow> ((True, Some (h, b)), t\<lparr>rx := ps\<rparr>))"

text \<open>
  Modelled from the spec: \<^verbatim>\<open>OutProcessor\<close>, the reply correlator, with the
  connection's counter \<^verbatim>\<open>replyIdCounter\<close> (an unsigned integer: incrementing it
  wraps around at its width) and the registered handlers by key, in the order of
  registration.
\<close>

record OutProcessor =
  replyIdCounter :: nat
  m_replies :: "(key_t \<times> handler) list"

datatype error = KeyCollision | NoHeader

text \<open>
  Modelled from the spec: \<^verbatim>\<open>OutProcessor::addReplyHandler\<close> registers the handler
  under the key; a key that is already present is a fatal breach of the invariant.
\<close>

definition addReplyHandler :: "OutProcessor \<Rightarrow> key_t \<Rightarrow> handler \<Rightarrow> error + OutProcessor" where
  "addReplyHandler p k h =
     (if k \<in> fst ` set (m_replies p) then Inl KeyCollision
      else Inr (p\<lparr>m_replies := m_replies p @ [(k, h)]\<rparr>))"

type_synonym WorkItem = "Stream \<times> handler"

record Connection =
  m_transport :: Transport
  m_localPrc :: nat
  m_remotePrc :: OutProcessor
  m_outWork :: "WorkItem list"
  m_tmpOutWork :: "WorkItem list"
  m_outSignal :: "callback option"
  m_disconnectSignal :: "callback option"
  trace :: "event list"

definition Connection_ctor :: "nat \<Rightarrow> Transport \<Rightarrow> Connection" where
  "Connection_ctor localObj transport =
     \<lparr>m_transport = transport, m_localPrc = localObj,
      m_remotePrc = \<lparr>replyIdCounter = 0, m_replies = []\<rparr>,
      m_outWork = [], m_tmpOutWork = [],
      m_outSignal = None, m_disconnectSignal = None, trace = []\<rparr>"

definition setOutSignal :: "Connection \<Rightarrow> callback option \<Rightarrow> Connection" where
  "setOutSignal c cb = c\<lparr>m_outSignal := cb\<rparr>"

definition setDisconnectSignal :: "Connection \<Rightarrow> callback option \<Rightarrow> Connection" where
  "setDisconnectSignal c cb = c\<lparr>m_disconnectSignal := cb\<rparr>"

section \<open>The Call builder\<close>

text \<open>
  A builder holds a reference to its connection; the connection is passed to and
  returned by every operation that uses it.
\<close>

record Call =
  m_data :: Stream
  m_commited :: bool

text \<open>\<^verbatim>\<open>Call(C& con, uint32_t rpcid)\<close>: reserves the header.\<close>

definition Call_ctor :: "32 word \<Rightarrow> Call" where
  "Call_ctor rpcid =
     \<lparr>m_data = write_header Stream_empty (Header_ctor\<lparr>bits_rpcid := rpcid\<rparr>),
      m_commited = False\<rparr>"

text \<open>
  \<^verbatim>\<open>serializeParams\<close>: \<^verbatim>\<open>serializeMethod\<close> of the codec appends the encoded
  arguments; \<open>enc\<close> is what the codec produced for them.
\<close>

definition serializeParams :: "Call \<Rightarrow> byte list \<Rightarrow> Call" where
  "serializeParams c enc = c\<lparr>m_data := (m_data c)\<lparr>body := body (m_data c) @ enc\<rparr>\<rparr>"

text \<open>
  \<^verbatim>\<open>Call(Call&& other)\<close>: the new builder takes the buffer and copies the flag; the
  result is the new builder and what is left of \<open>other\<close>.
\<close>

definition Call_move :: "Call \<Rightarrow> Call \<times> Call" where
  "Call_move other =
     (\<lparr>m_data = m_data other, m_commited = m_commited other\<rparr>,
      other\<lparr>m_data := Stream_empty\<rparr>)"

text \<open>\<^verbatim>\<open>Connection::commit\<close>: queue the send action, then raise the out signal.\<close>

definition commit :: "Connection \<Rightarrow> Stream \<Rightarrow> handler \<Rightarrow> Connection" where
  "commit c data h =
     (let c1 = c\<lparr>m_outWork := m_outWork c @ [(data, h)]\<rparr>
      in case m_outSignal c1 of
           None \<Rightarrow> c1
         | Some cb \<Rightarrow> c1\<lparr>trace := trace c1 @ [OutSignal cb]\<rparr>)"

text \<open>\<^verbatim>\<open>Call::async\<close>: the buffer is moved into the send action.\<close>

definition async :: "Connection \<Rightarrow> Call \<Rightarrow> handler \<Rightarrow> Connection \<times> Call" where
  "async con c h =
     (commit con (m_data c) h, c\<lparr>m_data := Stream_empty, m_commited := True\<rparr>)"

text \<open>\<^verbatim>\<open>Call::ft\<close>: \<open>pr\<close> is the promise made by \<^verbatim>\<open>make_shared\<close>.\<close>

definition ft :: "Connection \<Rightarrow> Call \<Rightarrow> nat \<Rightarrow> Connection \<times> Call" where
  "ft con c pr = async con c (SetPromise pr)"

text \<open>\<^verbatim>\<open>Call::~Call\<close>.\<close>

definition Call_dtor :: "nat \<Rightarrow> Connection \<Rightarrow> Call \<Rightarrow> Connection" where
  "Call_dtor hw con c =
     (if writeSize hw (m_data c) \<noteq> 0 \<and> \<not> m_commited c then fst (async con c NoOp) else con)"

text \<open>
  \<^verbatim>\<open>Connection::call\<close>: the local builder \<open>c\<close> is moved into the returned one and
  destroyed when the function returns.
\<close>

definition call :: "nat \<Rightarrow> Connection \<Rightarrow> 32 word \<Rightarrow> byte list \<Rightarrow> Connection \<times> Call" where
  "call hw con rpcid enc =
     (let c = serializeParams (Call_ctor rpcid) enc;
          (ret, c') = Call_move c
      in (Call_dtor hw con c', ret))"

text \<open>
  \<^verbatim>\<open>Connection::callGeneric\<close>: \<open>genericRPC\<close> is the constant
  \<^verbatim>\<open>Table<Remote>::RPCId::genericRPC\<close>, \<open>enc\<close> the encoding of name and arguments.
\<close>

definition callGeneric :: "nat \<Rightarrow> 32 word \<Rightarrow> Connection \<Rightarrow> byte list \<Rightarrow> Connection \<times> Call" where
  "callGeneric hw genericRPC con enc =
     (let c = serializeParams (Call_ctor genericRPC) enc;
          (ret, c') = Call_move c
      in (Call_dtor hw con c', ret))"

section \<open>The connection\<close>

text \<open>\<^verbatim>\<open>BaseConnection::Direction\<close> and the tests \<^verbatim>\<open>(int)what & (int)Direction::X\<close>.\<close>

datatype Direction = In | Out | Both

fun Direction_int :: "Direction \<Rightarrow> int" where
  "Direction_int In = 1"
| "Direction_int Out = 2"
| "Direction_int Both = 3"

definition has_direction :: "Direction \<Rightarrow> Direction \<Rightarrow> bool" where
  "has_direction what d = (Direction_int what AND Direction_int d \<noteq> 0)"

text \<open>
  \<^verbatim>\<open>Connection::send\<close>. The header object at offset 0 gets the size and the
  pre-incremented counter, the handler is registered under the key of the patched header,
  and the buffer goes to the transport. The increment wraps around at the width of
  \<^verbatim>\<open>replyIdCounter\<close>, and each assignment to a bit-field keeps the low bits that
  fit. A buffer with nothing at offset 0 has no header to patch: \<open>NoHeader\<close>.
\<close>

definition send :: "nat \<Rightarrow> Widths \<Rightarrow> Connection \<Rightarrow> Stream \<Rightarrow> handler \<Rightarrow> error + Connection" where
  "send hw fw c data h =
     (case header data of
        None \<Rightarrow> Inl NoHeader
      | Some hdr0 \<Rightarrow>
          let hdr1 = hdr0\<lparr>bits_size := writeSize hw data mod 2 ^ size_bits fw\<rparr>;
              n = (replyIdCounter (m_remotePrc c) + 1) mod 2 ^ replyId_bits fw;
              p1 = (m_remotePrc c)\<lparr>replyIdCounter := n\<rparr>;
              hdr2 = hdr1\<lparr>bits_counter := n mod 2 ^ counter_bits fw\<rparr>;
              data2 = data\<lparr>header := Some hdr2\<rparr>
          in (case addReplyHandler p1 (key hdr2) h of
                Inl e \<Rightarrow> Inl e
              | Inr p2 \<Rightarrow>
                  Inr (c\<lparr>m_remotePrc := p2,
                         trace := trace c @ [ReplyHandlerAdded (key hdr2) h, TransportSend data2]\<rparr>)))"

text \<open>
  The loop of \<^verbatim>\<open>processOut\<close>: run the front action, then pop it. A fatal error of an
  action ends the run.
\<close>

lemma send_tmpOutWork: "send hw fw c data h = Inr c' \<Longrightarrow> m_tmpOutWork c' = m_tmpOutWork c"
  by (auto simp: send_def Let_def split: option.splits sum.splits)

function processOut_loop :: "nat \<Rightarrow> Widths \<Rightarrow> Connection \<Rightarrow> error + Connection" where
  "processOut_loop hw fw c =
     (case m_tmpOutWork c of
        [] \<Rightarrow> Inr c
      | w # ws \<Rightarrow>
          (case send hw fw c (fst w) (snd w) of
             Inl e \<Rightarrow> Inl e
           | Inr c' \<Rightarrow> processOut_loop hw fw (c'\<lparr>m_tmpOutWork := tl (m_tmpOutWork c')\<rparr>)))"
  by pat_completeness auto
termination
  by (relation "measure (\<lambda>(hw, fw, c). length (m_tmpOutWork c))")
     (auto dest: send_tmpOutWork)

text \<open>\<^verbatim>\<open>Connection::processOut\<close>: swap the queue with \<^verbatim>\<open>m_tmpOutWork\<close>, then drain.\<close>

definition processOut :: "nat \<Rightarrow> Widths \<Rightarrow> Connection \<Rightarrow> error + Connection" where
  "processOut hw fw c =
     processOut_loop hw fw (c\<lparr>m_tmpOutWork := m_outWork c, m_outWork := m_tmpOutWork c\<rparr>)"

text \<open>
  Modelled from the spec: \<^verbatim>\<open>OutProcessor::abortReplies\<close> delivers a failure result
  to every registered handler and clears the correlator.
\<close>

definition abortReplies :: "Connection \<Rightarrow> Connection" where
  "abortReplies c =
     c\<lparr>m_remotePrc := (m_remotePrc c)\<lparr>m_replies := []\<rparr>,
       trace := trace c @ map (\<lambda>r. HandlerInvoked (snd r) Aborted) (m_replies (m_remotePrc c))\<rparr>"

text \<open>
  Modelled from the spec: \<^verbatim>\<open>OutProcessor::processReply\<close> looks up and removes the
  entry for the key of the header and invokes its handler with the reply; a reply with no
  entry is discarded.
\<close>

definition processReply :: "Connection \<Rightarrow> byte list \<Rightarrow> Header \<Rightarrow> Connection" where
  "processReply c bs hdr =
     (case map_of (m_replies (m_remotePrc c)) (key hdr) of
        None \<Rightarrow> c
      | Some h \<Rightarrow>
          c\<lparr>m_remotePrc := (m_remotePrc c)
               \<lparr>m_replies := filter (\<lambda>r. fst r \<noteq> key hdr) (m_replies (m_remotePrc c))\<rparr>,
            trace := trace c @ [HandlerInvoked h (Replied hdr bs)]\<rparr>)"

text \<open>
  Modelled from the spec: \<^verbatim>\<open>InProcessor::processCall\<close>, the local-dispatch delegate.
  The call is recorded; what the invoked method does is outside the connection.
\<close>

definition processCall :: "Connection \<Rightarrow> byte list \<Rightarrow> Header \<Rightarrow> Connection" where
  "processCall c bs hdr = c\<lparr>trace := trace c @ [LocalCall hdr bs]\<rparr>"

lemma receive_frame_shorter:
  "((ok, Some f), t') = receive t \<Longrightarrow> length (rx t') < length (rx t)"
  by (auto simp: receive_def split: list.splits poll.splits)

lemma processReply_transport [simp]: "m_transport (processReply c bs hdr) = m_transport c"
  by (simp add: processReply_def split: option.splits)

lemma processCall_transport [simp]: "m_transport (processCall c bs hdr) = m_transport c"
  by (simp add: processCall_def)

text \<open>\<^verbatim>\<open>Connection::processIn\<close>.\<close>

function processIn :: "Connection \<Rightarrow> bool \<times> Connection" where
  "processIn c =
     (case receive (m_transport c) of
        ((False, _), t) \<Rightarrow> (False, abortReplies (c\<lparr>m_transport := t\<rparr>))
      | ((True, None), t) \<Rightarrow> (True, c\<lparr>m_transport := t\<rparr>)
      | ((True, Some (hdr, bs)), t) \<Rightarrow>
          processIn (if bits_isReply hdr
                     then processReply (c\<lparr>m_transport := t\<rparr>) bs hdr
                     else processCall (c\<lparr>m_transport := t\<rparr>) bs hdr))"
  by pat_completeness auto
termination
  by (relation "measure (\<lambda>c. length (rx (m_transport c)))")
     (auto dest: receive_frame_shorter)

text \<open>
  \<^verbatim>\<open>Connection::process\<close>. The \<^verbatim>\<open>Callstack\<close> marker is pushed on entry and popped
  on exit; nothing modelled here reads it.
\<close>

definition process :: "nat \<Rightarrow> Widths \<Rightarrow> Direction \<Rightarrow> Connection \<Rightarrow> error + Connection" where
  "process hw fw what c =
     (case (if has_direction what Out then processOut hw fw c else Inr c) of
        Inl e \<Rightarrow> Inl e
      | Inr c1 \<Rightarrow>
          if has_direction what In then
            (case processIn c1 of
               (ok, c2) \<Rightarrow>
                 if \<not> ok then
                   (case m_disconnectSignal c2 of
                      Some cb \<Rightarrow>
                        Inr (c2\<lparr>trace := trace c2 @ [DisconnectSignal cb],
                                m_disconnectSignal := None\<rparr>)
                    | None \<Rightarrow> Inr c2)
                 else Inr c2)
          else Inr c1)"

declare processOut_loop.simps [simp del]
declare processIn.simps [simp del]

section \<open>Producers beside processOut\<close>


text \<open>\<^verbatim>\<open>commit\<close>, under the lock: \<^verbatim>\<open>q.emplace(...)\<close>.\<close>

definition emplace :: "Connection \<Rightarrow> Stream \<Rightarrow> handler \<Rightarrow> Connection" where
  "emplace c data h = c\<lparr>m_outWork := m_outWork c @ [(data, h)]\<rparr>"

text \<open>\<^verbatim>\<open>commit\<close>, after the lock: \<^verbatim>\<open>if (m_outSignal) m_outSignal();\<close>.\<close>

definition raise_out_signal :: "Connection \<Rightarrow> Connection" where
  "raise_out_signal c =
     (case m_outSignal c of
        None \<Rightarrow> c
      | Some cb \<Rightarrow> c\<lparr>trace := trace c @ [OutSignal cb]\<rparr>)"







section \<open>Statement vocabulary\<close>

text \<open>
  Header Codec, \<open>patch(buffer, size, counter)\<close>, in the words of the design: the
  reserved header is overwritten in place with the final size and counter.
\<close>

definition patch :: "Stream \<Rightarrow> nat \<Rightarrow> nat \<Rightarrow> Stream" where
  "patch s sz n =
     s\<lparr>header := map_option (\<lambda>h. h\<lparr>bits_size := sz, bits_counter := n\<rparr>) (header s)\<rparr>"

text \<open>The frames handed to \<^verbatim>\<open>Transport::send\<close>, in order.\<close>

fun sent_frames :: "event list \<Rightarrow> Stream list" where
  "sent_frames [] = []"
| "sent_frames (TransportSend f # es) = f # sent_frames es"
| "sent_frames (_ # es) = sent_frames es"

text \<open>The calls made by \<^verbatim>\<open>send\<close>, in order: registrations and transport sends.\<close>

fun out_events :: "event list \<Rightarrow> event list" where
  "out_events [] = []"
| "out_events (TransportSend f # es) = TransportSend f # out_events es"
| "out_events (ReplyHandlerAdded k h # es) = ReplyHandlerAdded k h # out_events es"
| "out_events (_ # es) = out_events es"



definition frame_key :: "Stream \<Rightarrow> key_t" where
  "frame_key f = (case header f of None \<Rightarrow> (0, 0) | Some h \<Rightarrow> key h)"




text \<open>
  What one queued action does when it is given the counter value \<open>i\<close>, a value that
  fits: the frame that goes out, and the two calls it makes, the registration first.
\<close>

definition sent_frame :: "nat \<Rightarrow> Widths \<Rightarrow> nat \<times> WorkItem \<Rightarrow> Stream" where
  "sent_frame hw fw iw =
     patch (fst (snd iw)) (writeSize hw (fst (snd iw)) mod 2 ^ size_bits fw) (fst iw)"

definition send_events :: "nat \<Rightarrow> Widths \<Rightarrow> nat \<times> WorkItem \<Rightarrow> event list" where
  "send_events hw fw iw =
     [ReplyHandlerAdded (frame_key (sent_frame hw fw iw)) (snd (snd iw)),
      TransportSend (sent_frame hw fw iw)]"

definition after_sends :: "nat \<Rightarrow> Widths \<Rightarrow> Connection \<Rightarrow> WorkItem list \<Rightarrow> Connection" where
  "after_sends hw fw c ws =
     c\<lparr>m_remotePrc :=
         \<lparr>replyIdCounter = replyIdCounter (m_remotePrc c) + length ws,
          m_replies = m_replies (m_remotePrc c) @
            map (\<lambda>iw. (frame_key (sent_frame hw fw iw), snd (snd iw)))
              (enumerate (Suc (replyIdCounter (m_remotePrc c))) ws)\<rparr>,
       trace := trace c @
         concat (map (send_events hw fw) (enumerate (Suc (replyIdCounter (m_remotePrc c))) ws))\<rparr>"

text \<open>
  The statement \<^verbatim>\<open>con.call<F>(rpcid, args...).async(h);\<close> of a caller: the builder
  returned by \<^verbatim>\<open>call\<close> is committed and destroyed at the end of the statement. With
  the handler \<open>SetPromise pr\<close> this is \<^verbatim>\<open>ft()\<close>.
\<close>

definition finalize_call :: "nat \<Rightarrow> Connection \<Rightarrow> 32 word \<times> byte list \<times> handler \<Rightarrow> Connection" where
  "finalize_call hw con x =
     (case call hw con (fst x) (fst (snd x)) of
        (con1, b) \<Rightarrow>
          (case async con1 b (snd (snd x)) of
             (con2, b') \<Rightarrow> Call_dtor hw con2 b'))"


text \<open>
  A builder that is moved \<open>n\<close> times, each moved-from builder being destroyed.
\<close>

fun moves :: "nat \<Rightarrow> nat \<Rightarrow> Connection \<Rightarrow> Call \<Rightarrow> Connection \<times> Call" where
  "moves hw 0 con c = (con, c)"
| "moves hw (Suc n) con c =
     (case Call_move c of (c_new, c_old) \<Rightarrow> moves hw n (Call_dtor hw con c_old) c_new)"

text \<open>
  The inbound loop in the words of the design: a reply frame goes to the correlator (the
  entry of its key is removed and its handler invoked; with no entry the frame is
  dropped), any other frame goes to the local-dispatch delegate.
\<close>

definition route_frame :: "Connection \<Rightarrow> Header \<times> byte list \<Rightarrow> Connection" where
  "route_frame c f =
     (if bits_isReply (fst f) then
        (case map_of (m_replies (m_remotePrc c)) (key (fst f)) of
           Some h \<Rightarrow>
             c\<lparr>m_remotePrc := (m_remotePrc c)
                  \<lparr>m_replies := filter (\<lambda>r. fst r \<noteq> key (fst f)) (m_replies (m_remotePrc c))\<rparr>,
               trace := trace c @ [HandlerInvoked h (Replied (fst f) (snd f))]\<rparr>
         | None \<Rightarrow> c)
      else c\<lparr>trace := trace c @ [LocalCall (fst f) (snd f)]\<rparr>)"

definition frame_poll :: "Header \<times> byte list \<Rightarrow> poll" where
  "frame_poll f = PFrame (fst f) (snd f)"

text \<open>
  Two ways a caller uses the builder returned by \<^verbatim>\<open>call\<close>: it is moved \<open>n\<close> times
  and the last builder is destroyed without a commit, or the last builder is committed
  with \<^verbatim>\<open>async\<close> and then destroyed.
\<close>

definition call_moved_dropped ::
  "nat \<Rightarrow> nat \<Rightarrow> Connection \<Rightarrow> 32 word \<Rightarrow> byte list \<Rightarrow> Connection" where
  "call_moved_dropped hw n con rpcid enc =
     (case call hw con rpcid enc of
        (con1, b) \<Rightarrow> (case moves hw n con1 b of (con2, b2) \<Rightarrow> Call_dtor hw con2 b2))"

definition call_moved_async ::
  "nat \<Rightarrow> nat \<Rightarrow> Connection \<Rightarrow> 32 word \<Rightarrow> byte list \<Rightarrow> handler \<Rightarrow> Connection" where
  "call_moved_async hw n con rpcid enc h =
     (case call hw con rpcid enc of
        (con1, b) \<Rightarrow>
          (case moves hw n con1 b of
             (con2, b2) \<Rightarrow> (case async con2 b2 h of (con3, b3) \<Rightarrow> Call_dtor hw con3 b3)))"

section \<open>Example inputs\<close>

definition ex_con :: Connection where
  "ex_con = Connection_ctor 0 \<lparr>rx = []\<rparr>"

definition ex_call :: Call where
  "ex_call = snd (call 8 ex_con 7 [1, 2])"

definition ex_call_noargs :: Call where
  "ex_call_noargs = snd (call 8 ex_con 7 [])"

definition ex_calls :: "(32 word \<times> byte list \<times> handler) list" where
  "ex_calls = [(7, [1, 2], UserHandler 1), (7, [], SetPromise 2), (9, [3], NoOp)]"

text \<open>Widths for the examples, and widths with a counter field of two bits.\<close>

definition ex_widths :: Widths where
  "ex_widths = \<lparr>size_bits = 32, counter_bits = 16, replyId_bits = 32\<rparr>"



text \<open>A connection with two calls in flight, a disconnect signal and a closed transport.\<close>

definition ex_closed :: Connection where
  "ex_closed =
     \<lparr>m_transport = \<lparr>rx = [PClosed]\<rparr>, m_localPrc = 0,
      m_remotePrc = \<lparr>replyIdCounter = 2, m_replies = [((7, 1), UserHandler 1), ((7, 2), SetPromise 2)]\<rparr>,
      m_outWork = [], m_tmpOutWork = [],
      m_outSignal = None, m_disconnectSignal = Some 5, trace = []\<rparr>"

text \<open>
  The same calls in flight on an open transport that holds a reply to the first call, a
  second reply with the same key, a call frame, and then nothing.
\<close>

definition ex_reply :: "Header \<times> byte list" where
  "ex_reply = (\<lparr>bits_rpcid = 7, bits_isReply = True, bits_size = 9, bits_counter = 1\<rparr>, [4])"

definition ex_incoming :: "Header \<times> byte list" where
  "ex_incoming = (\<lparr>bits_rpcid = 3, bits_isReply = False, bits_size = 8, bits_counter = 6\<rparr>, [])"

definition ex_open :: Connection where
  "ex_open = ex_closed\<lparr>m_transport := \<lparr>rx = map frame_poll [ex_reply, ex_reply, ex_incoming] @ [PEmpty]\<rparr>\<rparr>"

text \<open>The same, with the transport closed behind a reply to the first call.\<close>

definition ex_closing :: Connection where
  "ex_closing = ex_closed\<lparr>m_transport := \<lparr>rx = [frame_poll ex_reply, PClosed]\<rparr>\<rparr>"

text \<open>Three committed calls waiting in the queue of a connection with an out signal.\<close>

definition ex_queued :: Connection where
  "ex_queued = foldl (finalize_call 8) (setOutSignal ex_con (Some 4)) ex_calls"

text \<open>The connection with two calls in flight, polled while nothing is pending.\<close>

definition ex_idle :: Connection where
  "ex_idle = ex_closed\<lparr>m_transport := \<lparr>rx = [PEmpty, PClosed]\<rparr>\<rparr>"




section \<open>Facts about the builder\<close>

lemma writeSize_empty [simp]: "writeSize hw Stream_empty = 0"
  by (simp add: writeSize_def Stream_empty_def)

lemma writeSize_zero_iff: "0 < hw \<Longrightarrow> writeSize hw s = 0 \<longleftrightarrow> s = Stream_empty"
  by (cases s) (auto simp: writeSize_def Stream_empty_def split: option.splits)

lemma Call_dtor_moved_from: "Call_dtor hw con (snd (Call_move c)) = con"
  by (simp add: Call_dtor_def Call_move_def)

lemma Call_move_keeps: "fst (Call_move c) = c"
  by (simp add: Call_move_def)

lemma call_eq:
  "call hw con rpcid enc =
     (con, \<lparr>m_data = \<lparr>header = Some (Header_ctor\<lparr>bits_rpcid := rpcid\<rparr>), body = enc\<rparr>,
            m_commited = False\<rparr>)"
  by (simp add: call_def Call_move_def Call_dtor_def serializeParams_def Call_ctor_def
      write_header_def Let_def) (simp add: Stream_empty_def)

lemma callGeneric_eq: "callGeneric hw g con enc = call hw con g enc"
  by (simp add: call_def callGeneric_def)

lemma moves_eq: "moves hw n con c = (con, c)"
  by (induction n arbitrary: con c) (simp_all add: Call_move_def Call_dtor_def)

lemma m_outWork_commit: "m_outWork (commit con d h) = m_outWork con @ [(d, h)]"
  by (simp add: commit_def Let_def split: option.splits)


section \<open>Facts about processOut\<close>



lemma send_ok:
  assumes "header d = Some h0"
    and "(bits_rpcid h0,
          Suc (replyIdCounter (m_remotePrc c)) mod 2 ^ replyId_bits fw mod 2 ^ counter_bits fw)
         \<notin> fst ` set (m_replies (m_remotePrc c))"
  shows "send hw fw c d h =
     Inr (c\<lparr>m_remotePrc :=
              \<lparr>replyIdCounter = Suc (replyIdCounter (m_remotePrc c)) mod 2 ^ replyId_bits fw,
               m_replies = m_replies (m_remotePrc c) @
                 [((bits_rpcid h0,
                    Suc (replyIdCounter (m_remotePrc c)) mod 2 ^ replyId_bits fw
                      mod 2 ^ counter_bits fw), h)]\<rparr>,
            trace := trace c @
              [ReplyHandlerAdded
                 (bits_rpcid h0,
                  Suc (replyIdCounter (m_remotePrc c)) mod 2 ^ replyId_bits fw
                    mod 2 ^ counter_bits fw) h,
               TransportSend
                 (patch d (writeSize hw d mod 2 ^ size_bits fw)
                    (Suc (replyIdCounter (m_remotePrc c)) mod 2 ^ replyId_bits fw
                       mod 2 ^ counter_bits fw))]\<rparr>)"
  using assms
  by (simp add: send_def Let_def key_def addReplyHandler_def patch_def)





lemma after_sends_tmp [simp]: "m_tmpOutWork (after_sends hw fw c ws) = m_tmpOutWork c"
  by (simp add: after_sends_def)

lemma after_sends_outWork [simp]: "m_outWork (after_sends hw fw c ws) = m_outWork c"
  by (simp add: after_sends_def)





lemma sent_frames_append: "sent_frames (xs @ ys) = sent_frames xs @ sent_frames ys"
  by (induction xs rule: sent_frames.induct) simp_all

lemma out_events_append: "out_events (xs @ ys) = out_events xs @ out_events ys"
  by (induction xs rule: out_events.induct) simp_all


lemma out_events_send_events: "out_events (send_events hw fw iw) = send_events hw fw iw"
  by (simp add: send_events_def)

lemma out_events_concat_send_events:
  "out_events (concat (map (send_events hw fw) xs)) = concat (map (send_events hw fw) xs)"
  by (induction xs) (simp_all add: out_events_append out_events_send_events)



lemma commit_remotePrc [simp]: "m_remotePrc (commit c d h) = m_remotePrc c"
  by (simp add: commit_def Let_def split: option.splits)

lemma commit_tmpOutWork [simp]: "m_tmpOutWork (commit c d h) = m_tmpOutWork c"
  by (simp add: commit_def Let_def split: option.splits)





text \<open>
  Whatever the widths, as long as the counter field is not wider than the integer it is
  assigned from: the call that follows counter value \<open>2 ^ counter_bits - 1\<close> is sent
  with the counter 0.
\<close>

lemma send_counter_wraps:
  assumes "header d = Some h0"
    and "counter_bits fw \<le> replyId_bits fw"
    and "replyIdCounter (m_remotePrc c) = 2 ^ counter_bits fw - 1"
    and "(bits_rpcid h0, 0) \<notin> fst ` set (m_replies (m_remotePrc c))"
  shows "\<exists>c'. send hw fw c d h = Inr c' \<and>
     sent_frames (trace c') =
       sent_frames (trace c) @ [patch d (writeSize hw d mod 2 ^ size_bits fw) 0]"
proof -
  have "(2::nat) ^ counter_bits fw dvd 2 ^ replyId_bits fw"
    using assms(2) by (rule le_imp_power_dvd)
  then have "Suc (replyIdCounter (m_remotePrc c)) mod 2 ^ replyId_bits fw mod 2 ^ counter_bits fw =
      Suc (replyIdCounter (m_remotePrc c)) mod 2 ^ counter_bits fw"
    by (rule mod_mod_cancel)
  also have "\<dots> = 0"
    by (simp add: assms(3))
  finally have z: "Suc (replyIdCounter (m_remotePrc c)) mod 2 ^ replyId_bits fw
      mod 2 ^ counter_bits fw = 0" .
  show ?thesis
    using send_ok [OF assms(1), of c fw hw h] assms(4) z
    by (simp add: sent_frames_append)
qed

section \<open>Facts about schedules\<close>





lemma raise_out_signal_fields [simp]:
  "m_outWork (raise_out_signal c) = m_outWork c"
  "m_tmpOutWork (raise_out_signal c) = m_tmpOutWork c"
  "m_remotePrc (raise_out_signal c) = m_remotePrc c"
  "out_events (trace (raise_out_signal c)) = out_events (trace c)"
  by (simp_all add: raise_out_signal_def out_events_append split: option.splits)

lemma emplace_fields [simp]:
  "m_outWork (emplace c d h) = m_outWork c @ [(d, h)]"
  "m_tmpOutWork (emplace c d h) = m_tmpOutWork c"
  "m_remotePrc (emplace c d h) = m_remotePrc c"
  "trace (emplace c d h) = trace c"
  by (simp_all add: emplace_def)







section \<open>Facts about processIn and process\<close>

lemma route_frame_transport_upd:
  "route_frame (c\<lparr>m_transport := t\<rparr>) f = (route_frame c f)\<lparr>m_transport := t\<rparr>"
  by (simp add: route_frame_def split: option.splits)

lemma route_frame_transport [simp]: "m_transport (route_frame c f) = m_transport c"
  by (simp add: route_frame_def split: option.splits)

lemma processIn_frame:
  assumes "rx (m_transport c) = PFrame h b # ps"
  shows "processIn c =
     processIn (route_frame (c\<lparr>m_transport := (m_transport c)\<lparr>rx := ps\<rparr>\<rparr>) (h, b))"
  using assms
  by (subst processIn.simps)
     (simp add: receive_def route_frame_def processReply_def processCall_def split: option.splits)

lemma processIn_closed:
  assumes "rx (m_transport c) = PClosed # ps"
  shows "processIn c = (False, abortReplies c)"
  using assms by (subst processIn.simps) (simp add: receive_def)

lemma processIn_empty:
  assumes "rx (m_transport c) = PEmpty # ps"
  shows "processIn c = (True, c\<lparr>m_transport := (m_transport c)\<lparr>rx := ps\<rparr>\<rparr>)"
  using assms by (subst processIn.simps) (simp add: receive_def)

lemma processIn_nil:
  assumes "rx (m_transport c) = []"
  shows "processIn c = (True, c)"
  using assms by (subst processIn.simps) (simp add: receive_def)

lemma processIn_frames:
  assumes "rx (m_transport c) = map frame_poll fs @ rest"
  shows "processIn c =
     processIn (foldl route_frame (c\<lparr>m_transport := (m_transport c)\<lparr>rx := rest\<rparr>\<rparr>) fs)"
  using assms
proof (induction fs arbitrary: c)
  case Nil
  then have "c\<lparr>m_transport := (m_transport c)\<lparr>rx := rest\<rparr>\<rparr> = c" by simp
  then show ?case by simp
next
  case (Cons f fs)
  let ?c1 = "route_frame (c\<lparr>m_transport := (m_transport c)\<lparr>rx := map frame_poll fs @ rest\<rparr>\<rparr>) f"
  have "processIn c = processIn ?c1"
    using Cons.prems processIn_frame [of c "fst f" "snd f" "map frame_poll fs @ rest"]
    by (simp add: frame_poll_def)
  also have "\<dots> = processIn (foldl route_frame (?c1\<lparr>m_transport := (m_transport ?c1)\<lparr>rx := rest\<rparr>\<rparr>) fs)"
    by (rule Cons.IH) simp
  finally show ?case
    by (simp add: route_frame_transport_upd)
qed

lemma foldl_route_transport [simp]: "m_transport (foldl route_frame c fs) = m_transport c"
  by (induction fs arbitrary: c) simp_all

lemma foldl_route_transport_upd:
  "foldl route_frame (c\<lparr>m_transport := t\<rparr>) fs = (foldl route_frame c fs)\<lparr>m_transport := t\<rparr>"
  by (induction fs arbitrary: c) (simp_all add: route_frame_transport_upd)

lemma receive_closed_iff:
  "\<not> fst (fst (receive t)) \<longleftrightarrow> (\<exists>ps. rx t = PClosed # ps)"
  by (auto simp: receive_def split: list.splits poll.splits)

lemma has_direction_simps [simp]:
  "has_direction In In" "\<not> has_direction In Out" "has_direction Out Out" "\<not> has_direction Out In"
  "has_direction Both In" "has_direction Both Out"
  by (simp_all add: has_direction_def)

lemma process_In_idle:
  assumes "fst (receive (m_transport c)) = (True, None)"
  shows "process hw fw In c = Inr (c\<lparr>m_transport := snd (receive (m_transport c))\<rparr>)"
proof -
  have "processIn c = (True, c\<lparr>m_transport := snd (receive (m_transport c))\<rparr>)"
    using assms by (subst processIn.simps) (cases "receive (m_transport c)", simp)
  then show ?thesis by (simp add: process_def)
qed

lemma process_In_closed:
  assumes "\<not> fst (fst (receive (m_transport c)))"
  shows "process hw fw In c =
     Inr (c\<lparr>m_remotePrc := (m_remotePrc c)\<lparr>m_replies := []\<rparr>,
            m_disconnectSignal := None,
            trace := trace c @
              map (\<lambda>r. HandlerInvoked (snd r) Aborted) (m_replies (m_remotePrc c)) @
              (case m_disconnectSignal c of None \<Rightarrow> [] | Some cb \<Rightarrow> [DisconnectSignal cb])\<rparr>)"
proof -
  from assms obtain ps where "rx (m_transport c) = PClosed # ps"
    by (auto simp: receive_closed_iff)
  then have "processIn c = (False, abortReplies c)"
    by (rule processIn_closed)
  then show ?thesis
    by (cases "m_disconnectSignal c") (simp_all add: process_def abortReplies_def)
qed

lemma route_frame_disconnectSignal [simp]:
  "m_disconnectSignal (route_frame c f) = m_disconnectSignal c"
  by (simp add: route_frame_def split: option.splits)

lemma foldl_route_disconnectSignal [simp]:
  "m_disconnectSignal (foldl route_frame c fs) = m_disconnectSignal c"
  by (induction fs arbitrary: c) simp_all

lemma process_In_closed_later:
  assumes "rx (m_transport c) = map frame_poll fs @ PClosed # ps"
    and "d = foldl route_frame (c\<lparr>m_transport := (m_transport c)\<lparr>rx := PClosed # ps\<rparr>\<rparr>) fs"
  shows "process hw fw In c =
     Inr (d\<lparr>m_remotePrc := (m_remotePrc d)\<lparr>m_replies := []\<rparr>,
            m_disconnectSignal := None,
            trace := trace d @
              map (\<lambda>r. HandlerInvoked (snd r) Aborted) (m_replies (m_remotePrc d)) @
              (case m_disconnectSignal c of None \<Rightarrow> [] | Some cb \<Rightarrow> [DisconnectSignal cb])\<rparr>)"
proof -
  have "processIn c = processIn d"
    unfolding assms(2) using assms(1) by (rule processIn_frames)
  moreover have "rx (m_transport d) = PClosed # ps"
    by (simp add: assms(2))
  then have "processIn d = (False, abortReplies d)"
    by (rule processIn_closed)
  moreover have "m_disconnectSignal d = m_disconnectSignal c"
    by (simp add: assms(2))
  ultimately show ?thesis
    by (cases "m_disconnectSignal c") (simp_all add: process_def abortReplies_def)
qed

section \<open>The claims\<close>




text \<open>
  C2. Transport closed: let \<^verbatim>\<open>process(In)\<close> route the pending frames \<open>fs\<close> and then
  see \<^verbatim>\<open>receive\<close> report closed, the connection being \<open>d\<close> at that moment. Every
  handler registered in \<open>d\<close> is invoked exactly once with the aborted result, the
  correlator is left empty, and the disconnect signal, if one is set, is invoked once and
  reset. A further \<^verbatim>\<open>process(In)\<close> on the resulting connection changes nothing, so no
  handler and no signal is invoked a second time.
\<close>

theorem C2_closed_aborts_once:
  assumes "rx (m_transport c) = map frame_poll fs @ PClosed # ps"
    and "d = foldl route_frame (c\<lparr>m_transport := (m_transport c)\<lparr>rx := PClosed # ps\<rparr>\<rparr>) fs"
  shows "\<exists>c1. process hw fw In c = Inr c1 \<and>
     trace c1 =
       trace d @ map (\<lambda>r. HandlerInvoked (snd r) Aborted) (m_replies (m_remotePrc d)) @
       (case m_disconnectSignal c of None \<Rightarrow> [] | Some cb \<Rightarrow> [DisconnectSignal cb]) \<and>
     m_replies (m_remotePrc c1) = [] \<and>
     m_disconnectSignal c1 = None \<and>
     process hw fw In c1 = Inr c1"
proof -
  let ?c1 = "d\<lparr>m_remotePrc := (m_remotePrc d)\<lparr>m_replies := []\<rparr>,
               m_disconnectSignal := None,
               trace := trace d @
                 map (\<lambda>r. HandlerInvoked (snd r) Aborted) (m_replies (m_remotePrc d)) @
                 (case m_disconnectSignal c of None \<Rightarrow> [] | Some cb \<Rightarrow> [DisconnectSignal cb])\<rparr>"
  have first: "process hw fw In c = Inr ?c1"
    using assms by (rule process_In_closed_later)
  have "rx (m_transport ?c1) = PClosed # ps"
    by (simp add: assms(2))
  then have "\<not> fst (fst (receive (m_transport ?c1)))"
    by (simp add: receive_closed_iff)
  then have "process hw fw In ?c1 = Inr ?c1"
    by (simp add: process_In_closed)
  with first show ?thesis by simp
qed

theorem C2_witness:
  "rx (m_transport ex_closing) = map frame_poll [ex_reply] @ PClosed # [] \<and>
   (\<exists>c1. process 8 ex_widths In ex_closing = Inr c1 \<and>
      trace c1 = [HandlerInvoked (UserHandler 1) (Replied (fst ex_reply) (snd ex_reply)),
                  HandlerInvoked (SetPromise 2) Aborted,
                  DisconnectSignal 5] \<and>
      m_replies (m_remotePrc c1) = [] \<and> m_disconnectSignal c1 = None \<and>
      process 8 ex_widths In c1 = Inr c1)"
proof -
  have h: "rx (m_transport ex_closing) = map frame_poll [ex_reply] @ PClosed # []"
    by (simp add: ex_closing_def)
  have d: "foldl route_frame
             (ex_closing\<lparr>m_transport := (m_transport ex_closing)\<lparr>rx := PClosed # []\<rparr>\<rparr>) [ex_reply] =
           ex_closed\<lparr>m_remotePrc := \<lparr>replyIdCounter = 2, m_replies = [((7, 2), SetPromise 2)]\<rparr>,
                     trace := [HandlerInvoked (UserHandler 1) (Replied (fst ex_reply) (snd ex_reply))]\<rparr>"
    by (simp add: ex_closing_def ex_closed_def route_frame_def ex_reply_def key_def)
  have s: "m_disconnectSignal ex_closing = Some 5"
    by (simp add: ex_closing_def ex_closed_def)
  from C2_closed_aborts_once [OF h d [symmetric], of 8 ex_widths] show ?thesis
    using h by (simp add: s ex_closed_def)
qed

text \<open>
  C3, as stated: a second \<^verbatim>\<open>async\<close> on a committed builder would fail and not commit
  again. On the committed builder below the second \<^verbatim>\<open>async\<close> returns normally and the
  queue holds a second send action.
\<close>

theorem C3_counterexample:
  "m_commited (snd (async ex_con ex_call (UserHandler 1))) \<and>
   m_outWork (fst (async ex_con ex_call (UserHandler 1))) =
     [(\<lparr>header = Some \<lparr>bits_rpcid = 7, bits_isReply = False, bits_size = 0, bits_counter = 0\<rparr>,
        body = [1, 2]\<rparr>, UserHandler 1)] \<and>
   m_outWork (fst (async (fst (async ex_con ex_call (UserHandler 1)))
                         (snd (async ex_con ex_call (UserHandler 1))) (UserHandler 2))) =
     [(\<lparr>header = Some \<lparr>bits_rpcid = 7, bits_isReply = False, bits_size = 0, bits_counter = 0\<rparr>,
        body = [1, 2]\<rparr>, UserHandler 1),
      (\<lparr>header = None, body = []\<rparr>, UserHandler 2)]"
  by (simp add: ex_call_def ex_con_def call_eq async_def m_outWork_commit Connection_ctor_def
      Header_ctor_def Stream_empty_def)

text \<open>
  C3, amended. \<^verbatim>\<open>async\<close> and \<^verbatim>\<open>ft\<close> do not look at \<^verbatim>\<open>m_commited\<close>: after a
  first \<^verbatim>\<open>async\<close> the builder is committed and its buffer moved out, and a second
  \<^verbatim>\<open>async\<close> or \<^verbatim>\<open>ft\<close> calls \<^verbatim>\<open>commit\<close> again, which queues one more send action,
  for the empty buffer, and leaves the builder as it was.
\<close>

theorem C3_second_async_commits_again:
  "m_commited (snd (async con c h1)) \<and>
   m_data (snd (async con c h1)) = Stream_empty \<and>
   async (fst (async con c h1)) (snd (async con c h1)) h2 =
     (commit (fst (async con c h1)) Stream_empty h2, snd (async con c h1)) \<and>
   ft (fst (async con c h1)) (snd (async con c h1)) pr =
     (commit (fst (async con c h1)) Stream_empty (SetPromise pr), snd (async con c h1)) \<and>
   m_outWork (fst (async (fst (async con c h1)) (snd (async con c h1)) h2)) =
     m_outWork con @ [(m_data c, h1), (Stream_empty, h2)]"
  by (simp add: async_def ft_def m_outWork_commit)

text \<open>
  C4, as stated: an uncommitted builder would be committed by its destructor exactly when
  \<^verbatim>\<open>serializeParams\<close> was invoked on it, that is, when its body is not empty. Neither
  reading holds. The builder of a call without argument bytes has an empty body, is not
  committed, and its destructor queues its frame. The builder that \<^verbatim>\<open>call\<close> leaves
  behind after the move had \<^verbatim>\<open>serializeParams\<close> invoked on it, is not committed, and
  its destructor queues nothing.
\<close>

theorem C4_counterexample:
  "\<not> m_commited ex_call_noargs \<and> body (m_data ex_call_noargs) = [] \<and>
   m_outWork ex_con = [] \<and>
   m_outWork (Call_dtor 8 ex_con ex_call_noargs) =
     [(\<lparr>header = Some \<lparr>bits_rpcid = 7, bits_isReply = False, bits_size = 0, bits_counter = 0\<rparr>,
        body = []\<rparr>, NoOp)] \<and>
   \<not> m_commited (snd (Call_move (serializeParams (Call_ctor 7) [1, 2]))) \<and>
   m_outWork (Call_dtor 8 ex_con (snd (Call_move (serializeParams (Call_ctor 7) [1, 2])))) = []"
  by (simp add: ex_call_noargs_def ex_con_def call_eq Call_dtor_def async_def m_outWork_commit
      Connection_ctor_def Header_ctor_def writeSize_def Call_move_def serializeParams_def
      Call_ctor_def Stream_empty_def)

text \<open>
  C4, amended. With a header of positive width, the destructor of an uncommitted builder
  commits with the no-op handler exactly when the buffer is not empty, the reserved
  header counting: every builder that still owns its buffer is committed, whatever its
  body, and a builder whose buffer was moved out is not. In particular the builder
  returned by \<^verbatim>\<open>call\<close>, destroyed without \<^verbatim>\<open>async\<close> or \<^verbatim>\<open>ft\<close>, adds exactly one
  send action, for its frame, to the queue.
\<close>

theorem C4_dtor_commits_nonempty_buffer:
  assumes "0 < hw" and "\<not> m_commited c"
  shows "Call_dtor hw con c =
           (if m_data c = Stream_empty then con else commit con (m_data c) NoOp) \<and>
         m_outWork (Call_dtor hw (fst (call hw con rpcid enc)) (snd (call hw con rpcid enc))) =
           m_outWork con @
           [(\<lparr>header = Some (Header_ctor\<lparr>bits_rpcid := rpcid\<rparr>), body = enc\<rparr>, NoOp)]"
  using assms
  by (simp add: Call_dtor_def writeSize_zero_iff async_def call_eq m_outWork_commit
      Stream_empty_def)

theorem C4_witness:
  "(0::nat) < 8 \<and> \<not> m_commited ex_call \<and>
   Call_dtor 8 ex_con ex_call = commit ex_con (m_data ex_call) NoOp \<and>
   m_outWork (Call_dtor 8 (fst (call 8 ex_con 7 [])) (snd (call 8 ex_con 7 []))) =
     [(\<lparr>header = Some \<lparr>bits_rpcid = 7, bits_isReply = False, bits_size = 0, bits_counter = 0\<rparr>,
        body = []\<rparr>, NoOp)]"
proof -
  have h: "(0::nat) < 8" by simp
  have u: "\<not> m_commited ex_call"
    by (simp add: ex_call_def call_eq)
  have d: "m_data ex_call \<noteq> Stream_empty"
    by (simp add: ex_call_def call_eq Stream_empty_def)
  from C4_dtor_commits_nonempty_buffer [OF h u, of ex_con 7 "[]"] show ?thesis
    using u d by (simp add: ex_con_def Connection_ctor_def Header_ctor_def)
qed

text \<open>
  C5. Inbound frames: when the transport holds the frames \<open>fs\<close> followed by \<open>rest\<close>,
  one \<^verbatim>\<open>processIn\<close> routes every frame of \<open>fs\<close> in order, a reply to the correlator
  (entry removed and handler invoked, or dropped when there is no entry) and any other
  frame to the local-dispatch delegate, whatever the number of frames; it stops with
  true when the transport then reports nothing pending, and with false, after aborting
  the pending replies, when it reports closed.
\<close>

theorem C5_inbound_routing:
  assumes "rx (m_transport c) = map frame_poll fs @ rest"
  shows "processIn c =
           processIn (foldl route_frame (c\<lparr>m_transport := (m_transport c)\<lparr>rx := rest\<rparr>\<rparr>) fs) \<and>
         (rest = [] \<longrightarrow>
            processIn c =
              (True, foldl route_frame (c\<lparr>m_transport := (m_transport c)\<lparr>rx := []\<rparr>\<rparr>) fs)) \<and>
         (\<forall>ps. rest = PEmpty # ps \<longrightarrow>
            processIn c =
              (True, foldl route_frame (c\<lparr>m_transport := (m_transport c)\<lparr>rx := ps\<rparr>\<rparr>) fs)) \<and>
         (\<forall>ps. rest = PClosed # ps \<longrightarrow>
            processIn c =
              (False, abortReplies
                 (foldl route_frame (c\<lparr>m_transport := (m_transport c)\<lparr>rx := rest\<rparr>\<rparr>) fs)))"
proof -
  let ?d = "foldl route_frame (c\<lparr>m_transport := (m_transport c)\<lparr>rx := rest\<rparr>\<rparr>) fs"
  have loop: "processIn c = processIn ?d"
    using assms by (rule processIn_frames)
  have t: "rx (m_transport ?d) = rest"
    by simp
  have nil: "rest = [] \<Longrightarrow> processIn ?d = (True, ?d)"
    using t by (simp add: processIn_nil)
  have empty: "rest = PEmpty # ps \<Longrightarrow>
      processIn ?d = (True, foldl route_frame (c\<lparr>m_transport := (m_transport c)\<lparr>rx := ps\<rparr>\<rparr>) fs)" for ps
  proof -
    assume r: "rest = PEmpty # ps"
    then have "processIn ?d = (True, ?d\<lparr>m_transport := (m_transport ?d)\<lparr>rx := ps\<rparr>\<rparr>)"
      using t by (intro processIn_empty) simp
    then show ?thesis
      by (simp add: foldl_route_transport_upd)
  qed
  have closed: "rest = PClosed # ps \<Longrightarrow> processIn ?d = (False, abortReplies ?d)" for ps
    using t by (intro processIn_closed) simp
  show ?thesis
    using loop nil empty closed by auto
qed

theorem C5_witness:
  "rx (m_transport ex_open) = map frame_poll [ex_reply, ex_reply, ex_incoming] @ [PEmpty] \<and>
   processIn ex_open =
     (True,
      ex_open\<lparr>m_transport := \<lparr>rx = []\<rparr>,
              m_remotePrc := \<lparr>replyIdCounter = 2, m_replies = [((7, 2), SetPromise 2)]\<rparr>,
              trace := [HandlerInvoked (UserHandler 1) (Replied (fst ex_reply) [4]),
                        LocalCall (fst ex_incoming) []]\<rparr>)"
proof -
  have h: "rx (m_transport ex_open) = map frame_poll [ex_reply, ex_reply, ex_incoming] @ [PEmpty]"
    by (simp add: ex_open_def)
  have "processIn ex_open =
      (True, foldl route_frame (ex_open\<lparr>m_transport := (m_transport ex_open)\<lparr>rx := []\<rparr>\<rparr>)
               [ex_reply, ex_reply, ex_incoming])"
    using C5_inbound_routing [OF h] by blast
  then show ?thesis
    using h
    by (simp add: ex_open_def ex_closed_def route_frame_def ex_reply_def ex_incoming_def key_def)
qed



text \<open>
  C7. Patching at send time: for a buffer that starts with a header, and whose key is not
  registered yet, \<^verbatim>\<open>send\<close> hands to the transport the buffer the design's \<open>patch\<close>
  describes. Its header has the size and the counter set (each reduced to the width of
  its field, so each is below two to the power of that width) and the call id and the
  reply flag of the reserved header, its body is the body that was written, and it is as
  long as before.
\<close>

theorem C7_patch_in_place:
  assumes "header data = Some h0"
    and "(bits_rpcid h0,
          Suc (replyIdCounter (m_remotePrc c)) mod 2 ^ replyId_bits fw mod 2 ^ counter_bits fw)
         \<notin> fst ` set (m_replies (m_remotePrc c))"
  shows "\<exists>c' out hd'. send hw fw c data h = Inr c' \<and>
     sent_frames (trace c') = sent_frames (trace c) @ [out] \<and>
     out = patch data (writeSize hw data mod 2 ^ size_bits fw)
             (Suc (replyIdCounter (m_remotePrc c)) mod 2 ^ replyId_bits fw
                mod 2 ^ counter_bits fw) \<and>
     header out = Some hd' \<and>
     bits_size hd' = writeSize hw data mod 2 ^ size_bits fw \<and>
     bits_counter hd' =
       Suc (replyIdCounter (m_remotePrc c)) mod 2 ^ replyId_bits fw mod 2 ^ counter_bits fw \<and>
     bits_size hd' < 2 ^ size_bits fw \<and>
     bits_counter hd' < 2 ^ counter_bits fw \<and>
     bits_rpcid hd' = bits_rpcid h0 \<and>
     bits_isReply hd' = bits_isReply h0 \<and>
     body out = body data \<and>
     writeSize hw out = writeSize hw data"
  using assms(1) send_ok [OF assms, of hw h]
  by (simp add: sent_frames_append patch_def writeSize_def)

theorem C7_witness:
  "header (m_data ex_call) =
     Some \<lparr>bits_rpcid = 7, bits_isReply = False, bits_size = 0, bits_counter = 0\<rparr> \<and>
   (bits_rpcid \<lparr>bits_rpcid = 7, bits_isReply = False, bits_size = 0, bits_counter = 0\<rparr>,
    Suc (replyIdCounter (m_remotePrc ex_closed)) mod 2 ^ replyId_bits ex_widths
      mod 2 ^ counter_bits ex_widths)
     \<notin> fst ` set (m_replies (m_remotePrc ex_closed)) \<and>
   (\<exists>c'. send 8 ex_widths ex_closed (m_data ex_call) NoOp = Inr c' \<and>
      sent_frames (trace c') =
        [\<lparr>header = Some \<lparr>bits_rpcid = 7, bits_isReply = False, bits_size = 10, bits_counter = 3\<rparr>,
          body = [1, 2]\<rparr>])"
proof -
  have h1: "header (m_data ex_call) =
      Some \<lparr>bits_rpcid = 7, bits_isReply = False, bits_size = 0, bits_counter = 0\<rparr>"
    by (simp add: ex_call_def call_eq Header_ctor_def)
  have h2: "(bits_rpcid \<lparr>bits_rpcid = 7, bits_isReply = False, bits_size = 0, bits_counter = 0\<rparr>,
      Suc (replyIdCounter (m_remotePrc ex_closed)) mod 2 ^ replyId_bits ex_widths
        mod 2 ^ counter_bits ex_widths)
      \<notin> fst ` set (m_replies (m_remotePrc ex_closed))"
    by (simp add: ex_closed_def ex_widths_def)
  have d: "m_data ex_call =
      \<lparr>header = Some \<lparr>bits_rpcid = 7, bits_isReply = False, bits_size = 0, bits_counter = 0\<rparr>,
       body = [1, 2]\<rparr>"
    by (simp add: ex_call_def call_eq Header_ctor_def)
  from C7_patch_in_place [OF h1 h2, of 8 NoOp]
  obtain c' out where "send 8 ex_widths ex_closed (m_data ex_call) NoOp = Inr c'"
    and "sent_frames (trace c') = sent_frames (trace ex_closed) @ [out]"
    and "out = patch (m_data ex_call) (writeSize 8 (m_data ex_call) mod 2 ^ size_bits ex_widths)
                 (Suc (replyIdCounter (m_remotePrc ex_closed)) mod 2 ^ replyId_bits ex_widths
                    mod 2 ^ counter_bits ex_widths)"
    by blast
  then have "\<exists>c'. send 8 ex_widths ex_closed (m_data ex_call) NoOp = Inr c' \<and>
      sent_frames (trace c') =
        [\<lparr>header = Some \<lparr>bits_rpcid = 7, bits_isReply = False, bits_size = 10, bits_counter = 3\<rparr>,
          body = [1, 2]\<rparr>]"
    by (simp add: d ex_closed_def patch_def writeSize_def ex_widths_def)
  with h1 h2 show ?thesis
    by (intro conjI)
qed

text \<open>
  C8. Open, no data: when \<^verbatim>\<open>receive\<close> returns true with an empty buffer,
  \<^verbatim>\<open>process(In)\<close> returns normally and only the transport has advanced: the
  correlator, the record of invoked handlers and signals, and the disconnect signal are
  what they were.
\<close>

theorem C8_idle_poll_changes_nothing:
  assumes "fst (receive (m_transport c)) = (True, None)"
  shows "process hw fw In c = Inr (c\<lparr>m_transport := snd (receive (m_transport c))\<rparr>) \<and>
     (\<exists>c'. process hw fw In c = Inr c' \<and>
        m_remotePrc c' = m_remotePrc c \<and>
        trace c' = trace c \<and>
        m_disconnectSignal c' = m_disconnectSignal c \<and>
        m_outWork c' = m_outWork c)"
  using process_In_idle [OF assms, of hw fw] by simp

theorem C8_witness:
  "fst (receive (m_transport ex_idle)) = (True, None) \<and>
   process 8 ex_widths In ex_idle = Inr (ex_idle\<lparr>m_transport := \<lparr>rx = [PClosed]\<rparr>\<rparr>)"
proof -
  have h: "fst (receive (m_transport ex_idle)) = (True, None)"
    by (simp add: ex_idle_def receive_def)
  have "snd (receive (m_transport ex_idle)) = \<lparr>rx = [PClosed]\<rparr>"
    by (simp add: ex_idle_def receive_def)
  with C8_idle_poll_changes_nothing [OF h, of 8 ex_widths] show ?thesis
    using h by simp
qed



text \<open>
  C10. Moves: \<^verbatim>\<open>call\<close> and \<^verbatim>\<open>callGeneric\<close> leave the connection as it was, since the
  destructor of their local, moved-from builder queues nothing; the destructor of any
  moved-from builder queues nothing; a move hands the buffer and the flag on unchanged.
  So however often the returned builder is moved, the queue grows by exactly one send
  action, the call's frame: through the destructor of the last builder when it was never
  committed, or through its \<^verbatim>\<open>async\<close>, after which its destructor adds nothing.
\<close>

theorem C10_only_final_builder_commits:
  assumes "0 < hw"
  shows "fst (call hw con rpcid enc) = con \<and>
     callGeneric hw g con enc = call hw con g enc \<and>
     Call_dtor hw con (snd (Call_move c)) = con \<and>
     fst (Call_move c) = c \<and>
     moves hw n con c = (con, c) \<and>
     m_outWork (call_moved_dropped hw n con rpcid enc) =
       m_outWork con @ [(m_data (snd (call hw con rpcid enc)), NoOp)] \<and>
     m_outWork (call_moved_async hw n con rpcid enc h) =
       m_outWork con @ [(m_data (snd (call hw con rpcid enc)), h)]"
proof -
  have dropped: "call_moved_dropped hw n con rpcid enc =
      commit con (m_data (snd (call hw con rpcid enc))) NoOp"
    using assms
    by (simp add: call_moved_dropped_def moves_eq call_eq Call_dtor_def writeSize_def async_def)
  have committed: "call_moved_async hw n con rpcid enc h =
      commit con (m_data (snd (call hw con rpcid enc))) h"
    by (simp add: call_moved_async_def moves_eq call_eq Call_dtor_def async_def)
  show ?thesis
    by (simp add: dropped committed m_outWork_commit callGeneric_eq Call_dtor_moved_from
        Call_move_keeps moves_eq) (simp add: call_eq)
qed

theorem C10_witness:
  "(0::nat) < 8 \<and>
   fst (call 8 ex_con 7 [1, 2]) = ex_con \<and>
   Call_dtor 8 ex_con (snd (Call_move ex_call)) = ex_con \<and>
   m_outWork (call_moved_dropped 8 3 ex_con 7 [1, 2]) = [(m_data ex_call, NoOp)] \<and>
   m_outWork (call_moved_async 8 3 ex_con 7 [1, 2] (UserHandler 1)) =
     [(m_data ex_call, UserHandler 1)]"
proof -
  have h: "(0::nat) < 8" by simp
  have q: "m_outWork ex_con = []"
    by (simp add: ex_con_def Connection_ctor_def)
  from C10_only_final_builder_commits [OF h, of ex_con 7 "[1, 2]" _ ex_call 3 "UserHandler 1"]
  show ?thesis
    by (simp add: q ex_call_def)
qed

end
